theory Spec2Isabelle
  imports Main
begin

section \<open>Go values used by package vault\<close>

text \<open>
  A Go \<open>error\<close> is modelled by what the package observes of it: the text that its
  \<open>Error()\<close> method yields and the errors that it wraps. \<open>ErrorString\<close> is an error that
  wraps nothing (as \<open>errors.New\<close> and \<open>fmt.Errorf\<close> without \<open>%w\<close> build it);
  \<open>WrapErrors\<close> is what \<open>fmt.Errorf\<close> builds when the format has \<open>%w\<close> verbs: its
  \<open>Unwrap\<close> gives the \<open>%w\<close> operands in argument order. A nil error is \<open>None\<close> of
  \<open>gerror option\<close>.
\<close>

datatype gerror = ErrorString string | WrapErrors string "gerror list"

fun Error :: "gerror \<Rightarrow> string" where
  "Error (ErrorString s) = s"
| "Error (WrapErrors s es) = s"

fun Unwrap :: "gerror \<Rightarrow> gerror list" where
  "Unwrap (ErrorString s) = []"
| "Unwrap (WrapErrors s es) = es"

text \<open>
  Formatting. Every format string of the package uses the verbs \<open>%s\<close> (a string operand)
  and \<open>%w\<close> (an error operand, in \<open>fmt.Errorf\<close> only) and gives each verb its operand;
  \<open>format\<close> is exact on those: a verb is replaced by the text of the next operand, every
  other character is copied. What Go prints for a verb without operand is written out
  (\<open>%!s(MISSING)\<close>); operands left over are not reported.
\<close>

datatype operand = Str string | Err gerror

fun operand_text :: "operand \<Rightarrow> string" where
  "operand_text (Str s) = s"
| "operand_text (Err e) = Error e"

definition is_verb :: "char \<Rightarrow> bool" where
  "is_verb v \<longleftrightarrow> v = CHR ''s'' \<or> v = CHR ''w''"

fun format :: "string \<Rightarrow> operand list \<Rightarrow> string" where
  "format (c # v # fmt) args =
     (if c = CHR ''%'' \<and> is_verb v then
        (case args of
           a # rest \<Rightarrow> operand_text a @ format fmt rest
         | [] \<Rightarrow> ''%!'' @ [v] @ ''(MISSING)'' @ format fmt [])
      else c # format (v # fmt) args)"
| "format fmt args = fmt"

text \<open>The operands that the \<open>%w\<close> verbs of a format consume, in order.\<close>

fun wrapped :: "string \<Rightarrow> operand list \<Rightarrow> gerror list" where
  "wrapped (c # v # fmt) args =
     (if c = CHR ''%'' \<and> is_verb v then
        (case args of
           a # rest \<Rightarrow>
             (case a of
                Err e \<Rightarrow> (if v = CHR ''w'' then e # wrapped fmt rest else wrapped fmt rest)
              | Str s \<Rightarrow> wrapped fmt rest)
         | [] \<Rightarrow> [])
      else wrapped (v # fmt) args)"
| "wrapped fmt args = []"

definition Sprintf :: "string \<Rightarrow> operand list \<Rightarrow> string" where
  "Sprintf fmt args = format fmt args"

definition Errorf :: "string \<Rightarrow> operand list \<Rightarrow> gerror" where
  "Errorf fmt args =
     (case wrapped fmt args of
        [] \<Rightarrow> ErrorString (format fmt args)
      | ws \<Rightarrow> WrapErrors (format fmt args) ws)"

section \<open>Constants\<close>

definition emptyStr :: string where
  "emptyStr = []"

definition defaultURL :: string where
  "defaultURL = ''https://your.vault.server.url/''"

definition envSpaceName :: string where
  "envSpaceName = ''SPACE_NAME''"

definition envSecretPath :: string where
  "envSecretPath = ''SECRET_PATH''"

definition envAWSIAMRoleARN :: string where
  "envAWSIAMRoleARN = ''IAM_ROLE_ARN''"

definition envAppRoleID :: string where
  "envAppRoleID = ''APP_ROLE_ID''"

definition envAppRoleSecretID :: string where
  "envAppRoleSecretID = ''APP_ROLE_SECRET_ID''"

definition secretsMountPathFormat :: string where
  "secretsMountPathFormat = ''%s/secrets''"

definition awsLoginPathFormat :: string where
  "awsLoginPathFormat = ''%s/aws''"

definition appRoleLoginPathFormat :: string where
  "appRoleLoginPathFormat = ''%s/approle''"

definition errFmtConfigValidation :: string where
  "errFmtConfigValidation = ''failed to validate Vault Provider config, %s is empty''"

text \<open>
  \<open>Validate\<close> formats its error with the constants \<open>propertySpaceName\<close> and
  \<open>propertySecretPath\<close>, which the package's sources use and do not declare. They are
  parameters of the model: any two strings.
\<close>

record property_names =
  propertySpaceName :: string
  propertySecretPath :: string

section \<open>Configuration\<close>

record Config =
  SpaceName :: string
  SecretPath :: string
  SecretMountPath :: string
  AWSLoginPath :: string
  AppRoleLoginPath :: string
  AWSIAMRoleArn :: string
  AppRoleID :: string
  AppRoleSecretID :: string

text \<open>
  The process environment is a map from names to values; \<open>os.Getenv\<close> gives the empty
  string for a variable that is not set.
\<close>

type_synonym environ = "string \<rightharpoonup> string"

definition Getenv :: "environ \<Rightarrow> string \<Rightarrow> string" where
  "Getenv env name = (case env name of None \<Rightarrow> [] | Some v \<Rightarrow> v)"

definition NewConfig :: "environ \<Rightarrow> Config" where
  "NewConfig env =
     (let spaceName = Getenv env envSpaceName in
      \<lparr> SpaceName = spaceName,
        SecretPath = Getenv env envSecretPath,
        SecretMountPath = Sprintf secretsMountPathFormat [Str spaceName],
        AWSLoginPath = Sprintf awsLoginPathFormat [Str spaceName],
        AppRoleLoginPath = Sprintf appRoleLoginPathFormat [Str spaceName],
        AWSIAMRoleArn = Getenv env envAWSIAMRoleARN,
        AppRoleID = Getenv env envAppRoleID,
        AppRoleSecretID = Getenv env envAppRoleSecretID \<rparr>)"

definition Validate :: "property_names \<Rightarrow> Config \<Rightarrow> gerror option" where
  "Validate pn c =
     (if SpaceName c = emptyStr then
        Some (Errorf errFmtConfigValidation [Str (propertySpaceName pn)])
      else if SecretPath c = emptyStr then
        Some (Errorf errFmtConfigValidation [Str (propertySecretPath pn)])
      else None)"

section \<open>The Vault client library\<close>

text \<open>
  The package github.com/riotgames/vault-go-client is outside this repository. The model
  takes it as a parameter: a record of the operations that the package calls, over a type
  \<open>'c\<close> of client states. An operation with a Go result \<open>(T, error)\<close> whose
  \<open>T\<close> the package reads only when the error is nil is a sum (\<open>Inl\<close> the error); a login,
  whose first result the package drops, yields the error (\<open>None\<close> for nil) and the client
  as the call leaves it.
\<close>

record ClientConfig =
  Address :: string

record IAMLoginOptions =
  IAM_Role :: string
  IAM_MountPath :: string

record AppRoleLoginOptions =
  AppRole_RoleID :: string
  AppRole_SecretID :: string
  AppRole_MountPath :: string

record KV2GetOptions =
  KV2_MountPath :: string
  KV2_SecretPath :: string

text \<open>
  A value of Go's \<open>interface{}\<close> as a decoded secret holds it: nil, a string, a nested
  \<open>map[string]interface{}\<close>, or a value of another dynamic type.
\<close>

datatype iface =
    INil
  | IString string
  | IMap "string \<Rightarrow> iface option"
  | IBool bool
  | INumber string
  | ISlice "iface list"

record SecretResp =
  Data :: "string \<rightharpoonup> iface"

record 'c vault =
  DefaultConfig :: ClientConfig
  NewClient :: "ClientConfig \<Rightarrow> gerror + 'c"
  IAM_Login :: "IAMLoginOptions \<Rightarrow> 'c \<Rightarrow> gerror option \<times> 'c"
  AppRole_Login :: "AppRoleLoginOptions \<Rightarrow> 'c \<Rightarrow> gerror option \<times> 'c"
  KV2_Get :: "KV2GetOptions \<Rightarrow> 'c \<Rightarrow> gerror + SecretResp"

section \<open>Outcomes, run-time panics and the trace of effects\<close>

text \<open>
  A Go function returns, panics, or ends the process: \<open>zap\<close>'s \<open>Logger.Fatal\<close> writes its
  message and then calls \<open>os.Exit(1)\<close>, so nothing after it runs.
\<close>

datatype gotype = TNil | TString | TMap | TBool | TNumber | TSlice

text \<open>
  \<open>TypeAssertionError have want\<close> is the run-time panic of an unchecked assertion
  \<open>x.(T)\<close> on an \<open>x\<close> of dynamic type \<open>have\<close> other than \<open>T = want\<close>
  (``interface conversion: interface {} is nil, not string'').
\<close>

datatype panic = TypeAssertionError gotype gotype

datatype 'a outcome = Returns 'a | Panics panic | Exits

fun dynamic_type :: "iface \<Rightarrow> gotype" where
  "dynamic_type INil = TNil"
| "dynamic_type (IString s) = TString"
| "dynamic_type (IMap m) = TMap"
| "dynamic_type (IBool b) = TBool"
| "dynamic_type (INumber n) = TNumber"
| "dynamic_type (ISlice xs) = TSlice"

text \<open>Reading a Go map at a key it does not hold gives the zero value, nil here.\<close>

definition index :: "(string \<rightharpoonup> iface) \<Rightarrow> string \<Rightarrow> iface" where
  "index m k = (case m k of None \<Rightarrow> INil | Some v \<Rightarrow> v)"

text \<open>The unchecked assertions \<open>x.(map[string]interface{})\<close> and \<open>x.(string)\<close>.\<close>

fun assert_map :: "iface \<Rightarrow> (string \<rightharpoonup> iface) outcome" where
  "assert_map (IMap m) = Returns m"
| "assert_map x = Panics (TypeAssertionError (dynamic_type x) TMap)"

fun assert_string :: "iface \<Rightarrow> string outcome" where
  "assert_string (IString s) = Returns s"
| "assert_string x = Panics (TypeAssertionError (dynamic_type x) TString)"

text \<open>
  The logger of the options is \<open>zap.L()\<close>, the process-wide one, or one that the caller
  passed. What the package does to the world is recorded as a list of events, oldest
  first: the messages it logs and the calls it makes to the library.
\<close>

datatype Logger = zap_L | zap_Logger string

datatype event =
    Info Logger string
  | Debug Logger string
  | Fatal Logger string
  | CallNewClient ClientConfig
  | CallIAMLogin IAMLoginOptions
  | CallAppRoleLogin AppRoleLoginOptions

section \<open>Options and authentication providers\<close>

text \<open>
  An \<open>AuthProvider\<close> authenticates a client: it yields the error (\<open>None\<close> for nil), the
  client as the logins leave it, and the events of the run. The closure that
  \<open>WithDefaultChainAuthProvider\<close> installs keeps the pointer to the options it is
  installed in and reads their logger when it is called; the model passes that logger to
  the provider as its first argument.
\<close>

type_synonym 'c AuthProvider = "Logger \<Rightarrow> 'c \<Rightarrow> (gerror option \<times> 'c) \<times> event list"

record 'c options =
  log :: Logger
  url :: string
  authProvider :: "'c AuthProvider"

type_synonym 'c Option = "'c options \<Rightarrow> 'c options"

definition getIAMLoginOptions :: "Config \<Rightarrow> IAMLoginOptions" where
  "getIAMLoginOptions c = \<lparr> IAM_Role = AWSIAMRoleArn c, IAM_MountPath = AWSLoginPath c \<rparr>"

definition getAppRoleLoginOptions :: "Config \<Rightarrow> AppRoleLoginOptions" where
  "getAppRoleLoginOptions c =
     \<lparr> AppRole_RoleID = AppRoleID c,
       AppRole_SecretID = AppRoleSecretID c,
       AppRole_MountPath = AppRoleLoginPath c \<rparr>"

definition WithLogger :: "Logger \<Rightarrow> 'c Option" where
  "WithLogger l = (\<lambda>opts. opts\<lparr>log := l\<rparr>)"

definition WithURL :: "string \<Rightarrow> 'c Option" where
  "WithURL u = (\<lambda>opts. opts\<lparr>url := u\<rparr>)"

text \<open>
  The body of the closure of \<open>WithDefaultChainAuthProvider\<close>: IAM login, then AppRole
  login on the client as the IAM login left it. (The slice \<open>errs\<close> of the source is
  appended to and never read.)
\<close>

definition defaultChainAuth :: "'c vault \<Rightarrow> Config \<Rightarrow> 'c AuthProvider" where
  "defaultChainAuth lib config lg client =
     (case IAM_Login lib (getIAMLoginOptions config) client of
        (None, client1) \<Rightarrow>
          ((None, client1),
           [CallIAMLogin (getIAMLoginOptions config),
            Info lg ''Vault Client authed with AWS IAM method''])
      | (Some iamErr, client1) \<Rightarrow>
          (case AppRole_Login lib (getAppRoleLoginOptions config) client1 of
             (None, client2) \<Rightarrow>
               ((None, client2),
                [CallIAMLogin (getIAMLoginOptions config),
                 Debug lg (Sprintf ''Vault Client IAM auth failed with err: %s''
                             [Str (Error iamErr)]),
                 CallAppRoleLogin (getAppRoleLoginOptions config),
                 Info lg ''Vault Client authed with AppRole method''])
           | (Some appRoleErr, client2) \<Rightarrow>
               ((Some (Errorf ''%w; %w'' [Err iamErr, Err appRoleErr]), client2),
                [CallIAMLogin (getIAMLoginOptions config),
                 Debug lg (Sprintf ''Vault Client IAM auth failed with err: %s''
                             [Str (Error iamErr)]),
                 CallAppRoleLogin (getAppRoleLoginOptions config),
                 Debug lg (Sprintf ''Vault Client AppRole auth failed with err: %s''
                             [Str (Error appRoleErr)])])))"

definition WithDefaultChainAuthProvider :: "'c vault \<Rightarrow> Config \<Rightarrow> 'c Option" where
  "WithDefaultChainAuthProvider lib config = (\<lambda>opts. opts\<lparr>authProvider := defaultChainAuth lib config\<rparr>)"

definition WithIAMAuthProvider :: "'c vault \<Rightarrow> IAMLoginOptions \<Rightarrow> 'c Option" where
  "WithIAMAuthProvider lib loginOptions =
     (\<lambda>opts. opts\<lparr>authProvider := (\<lambda>lg client.
        (IAM_Login lib loginOptions client, [CallIAMLogin loginOptions]))\<rparr>)"

definition WithAppRoleAuthProvider :: "'c vault \<Rightarrow> AppRoleLoginOptions \<Rightarrow> 'c Option" where
  "WithAppRoleAuthProvider lib loginOptions =
     (\<lambda>opts. opts\<lparr>authProvider := (\<lambda>lg client.
        (AppRole_Login lib loginOptions client, [CallAppRoleLogin loginOptions]))\<rparr>)"

text \<open>
  \<open>createDefaultOptions\<close> builds the options with logger and URL and then installs the
  default chain. Between the two steps the field \<open>authProvider\<close> is a nil function in
  Go; it is written before anything can call it, and the model puts a provider that does
  nothing in its place.
\<close>

definition createDefaultOptions :: "'c vault \<Rightarrow> Config \<Rightarrow> 'c options" where
  "createDefaultOptions lib config =
     WithDefaultChainAuthProvider lib config
       \<lparr> log = zap_L, url = defaultURL, authProvider = (\<lambda>lg client. ((None, client), [])) \<rparr>"

section \<open>The component\<close>

text \<open>
  The fields \<open>config\<close> and \<open>vaultClient\<close> of the struct carry the prefix of the receiver
  \<open>c\<close>, which leaves \<open>config\<close> free as the name of a variable.
\<close>

record 'c Component =
  c_config :: Config
  c_vaultClient :: 'c

text \<open>The loop of \<open>NewComponent\<close> that applies the options in the order given.\<close>

fun apply_options :: "'c options \<Rightarrow> 'c Option list \<Rightarrow> 'c options" where
  "apply_options opts [] = opts"
| "apply_options opts (option # rest) = apply_options (option opts) rest"

definition NewComponent ::
  "'c vault \<Rightarrow> property_names \<Rightarrow> Config \<Rightarrow> 'c Option list \<Rightarrow> 'c Component outcome \<times> event list"
where
  "NewComponent lib pn config opt_list =
     (let opts = apply_options (createDefaultOptions lib config) opt_list in
      case Validate pn config of
        Some validateErr \<Rightarrow> (Exits, [Fatal (log opts) (Error validateErr)])
      | None \<Rightarrow>
          (let vaultClientConfig = (DefaultConfig lib)\<lparr>Address := url opts\<rparr> in
           case NewClient lib vaultClientConfig of
             Inl err \<Rightarrow>
               (Exits,
                [CallNewClient vaultClientConfig,
                 Fatal (log opts)
                   (Sprintf ''failed to initialize Vault client, err: %s'' [Str (Error err)])])
           | Inr client \<Rightarrow>
               (case authProvider opts (log opts) client of
                  ((Some authErr, client'), evs) \<Rightarrow>
                    (Exits,
                     CallNewClient vaultClientConfig # evs @
                     [Fatal (log opts)
                        (Sprintf ''failed to authenticate Vault client, err: %s''
                           [Str (Error authErr)])])
                | ((None, client'), evs) \<Rightarrow>
                    (Returns \<lparr> c_config = config, c_vaultClient = client' \<rparr>,
                     CallNewClient vaultClientConfig # evs))))"

definition GetSecret :: "'c vault \<Rightarrow> 'c Component \<Rightarrow> string \<Rightarrow> (string \<times> gerror option) outcome" where
  "GetSecret lib c key =
     (case KV2_Get lib \<lparr> KV2_MountPath = SecretMountPath (c_config c),
                         KV2_SecretPath = SecretPath (c_config c) \<rparr> (c_vaultClient c) of
        Inl err \<Rightarrow> Returns (emptyStr, Some err)
      | Inr secretResp \<Rightarrow>
          (case assert_map (index (Data secretResp) ''data'') of
             Panics p \<Rightarrow> Panics p
           | Exits \<Rightarrow> Exits
           | Returns secretMap \<Rightarrow>
               (case assert_string (index secretMap key) of
                  Panics p \<Rightarrow> Panics p
                | Exits \<Rightarrow> Exits
                | Returns s \<Rightarrow> Returns (s, None))))"

section \<open>Example instances\<close>

text \<open>
  A library double whose logins and read give fixed results; its client state counts the
  logins made on it. An environment with the two required variables, and a choice of the
  two property names.
\<close>

definition stubVault :: "gerror option \<Rightarrow> gerror option \<Rightarrow> gerror + SecretResp \<Rightarrow> nat vault" where
  "stubVault iam approle kv =
     \<lparr> DefaultConfig = \<lparr> Address = ''https://127.0.0.1:8200'' \<rparr>,
       NewClient = (\<lambda>cfg. Inr 0),
       IAM_Login = (\<lambda>opts c. (iam, Suc c)),
       AppRole_Login = (\<lambda>opts c. (approle, Suc c)),
       KV2_Get = (\<lambda>opts c. kv) \<rparr>"

definition teamSpaceEnv :: environ where
  "teamSpaceEnv = [''SPACE_NAME'' \<mapsto> ''TeamSpace'', ''SECRET_PATH'' \<mapsto> ''mysecret-dev'']"

definition stubNames :: property_names where
  "stubNames = \<lparr> propertySpaceName = ''vault.spaceName'', propertySecretPath = ''vault.secretPath'' \<rparr>"

text \<open>A call that returned a non-nil error to its caller.\<close>

fun returns_error :: "(string \<times> gerror option) outcome \<Rightarrow> bool" where
  "returns_error (Returns (s, Some e)) = True"
| "returns_error other = False"

text \<open>The options of the package other than \<open>WithURL\<close>.\<close>

inductive non_url_option :: "'c vault \<Rightarrow> 'c Option \<Rightarrow> bool" for lib :: "'c vault" where
  logger: "non_url_option lib (WithLogger l)"
| chain: "non_url_option lib (WithDefaultChainAuthProvider lib config)"
| iam: "non_url_option lib (WithIAMAuthProvider lib iamOptions)"
| approle: "non_url_option lib (WithAppRoleAuthProvider lib appRoleOptions)"

text \<open>
  The secret document \<open>{"data": {"password": "s3cr3t"}}\<close>, and a component on the example
  configuration whose client has logged in once.
\<close>

definition passwordDoc :: SecretResp where
  "passwordDoc = \<lparr> Data = [''data'' \<mapsto> IMap [''password'' \<mapsto> IString ''s3cr3t'']] \<rparr>"

definition stubComponent :: "nat Component" where
  "stubComponent = \<lparr> c_config = NewConfig teamSpaceEnv, c_vaultClient = Suc 0 \<rparr>"

text \<open>
  A library double whose client state is the address that the client was created with;
  its logins succeed and leave the client as it is.
\<close>

definition addressVault :: "string vault" where
  "addressVault =
     \<lparr> DefaultConfig = \<lparr> Address = ''https://127.0.0.1:8200'' \<rparr>,
       NewClient = (\<lambda>cfg. Inr (Address cfg)),
       IAM_Login = (\<lambda>opts c. (None, c)),
       AppRole_Login = (\<lambda>opts c. (None, c)),
       KV2_Get = (\<lambda>opts c. Inr passwordDoc) \<rparr>"

section \<open>Formatting lemmas\<close>

lemma Sprintf_secrets: "Sprintf secretsMountPathFormat [Str s] = s @ ''/secrets''"
  by (simp add: Sprintf_def secretsMountPathFormat_def is_verb_def)

lemma Sprintf_aws: "Sprintf awsLoginPathFormat [Str s] = s @ ''/aws''"
  by (simp add: Sprintf_def awsLoginPathFormat_def is_verb_def)

lemma Sprintf_approle: "Sprintf appRoleLoginPathFormat [Str s] = s @ ''/approle''"
  by (simp add: Sprintf_def appRoleLoginPathFormat_def is_verb_def)

lemma Errorf_validation:
  "Errorf errFmtConfigValidation [Str p] =
     ErrorString (''failed to validate Vault Provider config, '' @ p @ '' is empty'')"
  by (simp add: Errorf_def errFmtConfigValidation_def is_verb_def)

lemma Errorf_chain:
  "Errorf ''%w; %w'' [Err a, Err b] = WrapErrors (Error a @ ''; '' @ Error b) [a, b]"
  by (simp add: Errorf_def is_verb_def)

section \<open>Configuration: validation and derived paths\<close>

text \<open>
  C4. \<open>Validate\<close> checks the space identifier first and the secret path second. With
  the space identifier empty its error carries the property name of the space identifier,
  whatever the secret path is; with only the secret path empty the error carries the
  property name of the secret path; with both non-empty the result is nil.
\<close>

theorem Validate_names_first_missing_field:
  "(SpaceName c = [] \<longrightarrow>
      Validate pn c = Some (ErrorString
        (''failed to validate Vault Provider config, '' @ propertySpaceName pn @ '' is empty''))) \<and>
   (SpaceName c \<noteq> [] \<and> SecretPath c = [] \<longrightarrow>
      Validate pn c = Some (ErrorString
        (''failed to validate Vault Provider config, '' @ propertySecretPath pn @ '' is empty''))) \<and>
   (SpaceName c \<noteq> [] \<and> SecretPath c \<noteq> [] \<longrightarrow> Validate pn c = None)"
  by (simp add: Validate_def emptyStr_def Errorf_validation)

theorem Validate_names_first_missing_field_witness:
  "Validate stubNames (NewConfig Map.empty) =
     Some (ErrorString ''failed to validate Vault Provider config, vault.spaceName is empty'') \<and>
   Validate stubNames (NewConfig [''SPACE_NAME'' \<mapsto> ''TeamSpace'']) =
     Some (ErrorString ''failed to validate Vault Provider config, vault.secretPath is empty'') \<and>
   Validate stubNames (NewConfig teamSpaceEnv) = None"
  using Validate_names_first_missing_field [of "NewConfig Map.empty" stubNames]
    Validate_names_first_missing_field [of "NewConfig [''SPACE_NAME'' \<mapsto> ''TeamSpace'']" stubNames]
    Validate_names_first_missing_field [of "NewConfig teamSpaceEnv" stubNames]
  by (simp add: NewConfig_def Let_def Getenv_def envSpaceName_def envSecretPath_def teamSpaceEnv_def stubNames_def)

text \<open>
  C5. For a space identifier \<open>s\<close> read from \<open>SPACE_NAME\<close>, \<open>NewConfig\<close> derives the
  mount path \<open>s/secrets\<close>, the AWS login path \<open>s/aws\<close> and the role login path
  \<open>s/approle\<close>; the instance for \<open>TeamSpace\<close> follows it.
\<close>

theorem NewConfig_derives_paths:
  "env envSpaceName = Some s \<Longrightarrow>
     SpaceName (NewConfig env) = s \<and>
     SecretMountPath (NewConfig env) = s @ ''/secrets'' \<and>
     AWSLoginPath (NewConfig env) = s @ ''/aws'' \<and>
     AppRoleLoginPath (NewConfig env) = s @ ''/approle''"
  by (simp add: NewConfig_def Getenv_def Sprintf_secrets Sprintf_aws Sprintf_approle)

theorem NewConfig_derives_paths_witness:
  "SpaceName (NewConfig teamSpaceEnv) = ''TeamSpace'' \<and>
   SecretMountPath (NewConfig teamSpaceEnv) = ''TeamSpace/secrets'' \<and>
   AWSLoginPath (NewConfig teamSpaceEnv) = ''TeamSpace/aws'' \<and>
   AppRoleLoginPath (NewConfig teamSpaceEnv) = ''TeamSpace/approle''"
  using NewConfig_derives_paths [of teamSpaceEnv "''TeamSpace''"]
  by (simp add: teamSpaceEnv_def envSpaceName_def)

text \<open>
  C10. With \<open>SPACE_NAME\<close> unset or empty, \<open>NewConfig\<close> still yields a configuration,
  whose derived paths are the formats applied to the empty string: \<open>/secrets\<close>,
  \<open>/aws\<close> and \<open>/approle\<close>. The empty space identifier is rejected by \<open>Validate\<close>
  on that configuration.
\<close>

theorem NewConfig_empty_space_name:
  "env envSpaceName = None \<or> env envSpaceName = Some [] \<Longrightarrow>
     SpaceName (NewConfig env) = [] \<and>
     SecretMountPath (NewConfig env) = ''/secrets'' \<and>
     AWSLoginPath (NewConfig env) = ''/aws'' \<and>
     AppRoleLoginPath (NewConfig env) = ''/approle'' \<and>
     Validate pn (NewConfig env) = Some (ErrorString
       (''failed to validate Vault Provider config, '' @ propertySpaceName pn @ '' is empty''))"
  by (auto simp add: NewConfig_def Getenv_def Sprintf_secrets Sprintf_aws Sprintf_approle
      Validate_def emptyStr_def Errorf_validation)

theorem NewConfig_empty_space_name_witness:
  "SecretMountPath (NewConfig Map.empty) = ''/secrets'' \<and>
   AWSLoginPath (NewConfig Map.empty) = ''/aws'' \<and>
   AppRoleLoginPath (NewConfig Map.empty) = ''/approle'' \<and>
   Validate stubNames (NewConfig Map.empty) =
     Some (ErrorString ''failed to validate Vault Provider config, vault.spaceName is empty'') \<and>
   SecretMountPath (NewConfig [''SPACE_NAME'' \<mapsto> []]) = ''/secrets'' \<and>
   Validate stubNames (NewConfig [''SPACE_NAME'' \<mapsto> []]) =
     Some (ErrorString ''failed to validate Vault Provider config, vault.spaceName is empty'')"
  using NewConfig_empty_space_name [of Map.empty stubNames]
    NewConfig_empty_space_name [of "[''SPACE_NAME'' \<mapsto> []]" stubNames]
  by (simp add: envSpaceName_def stubNames_def)

section \<open>Lemmas on options and on the example instances\<close>

lemma installed_chain:
  "authProvider (WithDefaultChainAuthProvider lib config opts) = defaultChainAuth lib config"
  by (simp add: WithDefaultChainAuthProvider_def)

lemma default_options_fields:
  "log (createDefaultOptions lib config) = zap_L"
  "url (createDefaultOptions lib config) = defaultURL"
  "authProvider (createDefaultOptions lib config) = defaultChainAuth lib config"
  by (simp_all add: createDefaultOptions_def WithDefaultChainAuthProvider_def)

lemma non_url_option_keeps_url: "non_url_option lib f \<Longrightarrow> url (f opts) = url opts"
  by (induction rule: non_url_option.induct)
    (simp_all add: WithLogger_def WithDefaultChainAuthProvider_def WithIAMAuthProvider_def
      WithAppRoleAuthProvider_def)

lemma apply_options_keeps_url:
  "\<forall>f \<in> set fs. non_url_option lib f \<Longrightarrow> url (apply_options opts fs) = url opts"
  by (induction fs arbitrary: opts) (auto simp add: non_url_option_keeps_url)

lemma apply_options_append:
  "apply_options opts (fs @ gs) = apply_options (apply_options opts fs) gs"
  by (induction fs arbitrary: opts) simp_all

lemma apply_options_last_WithURL:
  "\<forall>f \<in> set post. non_url_option lib f \<Longrightarrow>
     url (apply_options opts (pre @ WithURL u # post)) = u"
  by (simp add: apply_options_append apply_options_keeps_url WithURL_def)

lemma NewComponent_returns:
  assumes "fst (NewComponent lib pn config opt_list) = Returns component"
  shows "\<exists>client evs.
           NewClient lib ((DefaultConfig lib)
             \<lparr>Address := url (apply_options (createDefaultOptions lib config) opt_list)\<rparr>) =
             Inr client \<and>
           authProvider (apply_options (createDefaultOptions lib config) opt_list)
             (log (apply_options (createDefaultOptions lib config) opt_list)) client =
             ((None, c_vaultClient component), evs) \<and>
           snd (NewComponent lib pn config opt_list) =
             CallNewClient ((DefaultConfig lib)
               \<lparr>Address := url (apply_options (createDefaultOptions lib config) opt_list)\<rparr>) # evs \<and>
           c_config component = config"
  using assms
  by (auto simp add: NewComponent_def Let_def split: option.splits sum.splits prod.splits)

lemma index_present: "m k = Some v \<Longrightarrow> index m k = v"
  by (simp add: index_def)

lemma index_absent: "m k = None \<Longrightarrow> index m k = INil"
  by (simp add: index_def)

lemma stub_valid: "Validate stubNames (NewConfig teamSpaceEnv) = None"
  by (simp add: Validate_def NewConfig_def Let_def Getenv_def teamSpaceEnv_def envSpaceName_def
      envSecretPath_def emptyStr_def)

lemma stub_new_client: "NewClient (stubVault iam appRole kv) clientConfig = Inr 0"
  by (simp add: stubVault_def)

lemma stub_iam_login: "IAM_Login (stubVault iam appRole kv) loginOptions client = (iam, Suc client)"
  by (simp add: stubVault_def)

lemma stub_approle_login:
  "AppRole_Login (stubVault iam appRole kv) loginOptions client = (appRole, Suc client)"
  by (simp add: stubVault_def)

lemma stub_read: "KV2_Get (stubVault iam appRole kv) getOptions client = kv"
  by (simp add: stubVault_def)

lemma passwordDoc_data:
  "Data passwordDoc ''data'' = Some (IMap [''password'' \<mapsto> IString ''s3cr3t''])"
  by (simp add: passwordDoc_def)

lemma address_new_client: "NewClient addressVault clientConfig = Inr (Address clientConfig)"
  by (simp add: addressVault_def)

lemma address_logins:
  "IAM_Login addressVault iamOptions client = (None, client)"
  "AppRole_Login addressVault appRoleOptions client = (None, client)"
  by (simp_all add: addressVault_def)

lemma address_default_config: "DefaultConfig addressVault = \<lparr> Address = ''https://127.0.0.1:8200'' \<rparr>"
  by (simp add: addressVault_def)

lemma address_construct:
  assumes "authProvider (apply_options (createDefaultOptions addressVault (NewConfig teamSpaceEnv))
             opt_list) = defaultChainAuth addressVault (NewConfig teamSpaceEnv)"
  shows "fst (NewComponent addressVault stubNames (NewConfig teamSpaceEnv) opt_list) =
           Returns \<lparr> c_config = NewConfig teamSpaceEnv,
                     c_vaultClient = url (apply_options
                       (createDefaultOptions addressVault (NewConfig teamSpaceEnv)) opt_list) \<rparr>"
  using assms
  by (simp add: NewComponent_def Let_def stub_valid address_new_client address_logins
      defaultChainAuth_def)

lemma teamSpace_login_options:
  "getIAMLoginOptions (NewConfig teamSpaceEnv) =
     \<lparr> IAM_Role = [], IAM_MountPath = ''TeamSpace/aws'' \<rparr>"
  "getAppRoleLoginOptions (NewConfig teamSpaceEnv) =
     \<lparr> AppRole_RoleID = [], AppRole_SecretID = [], AppRole_MountPath = ''TeamSpace/approle'' \<rparr>"
  by (simp_all add: getIAMLoginOptions_def getAppRoleLoginOptions_def NewConfig_def Let_def
      Getenv_def teamSpaceEnv_def envSpaceName_def envAWSIAMRoleARN_def envAppRoleID_def
      envAppRoleSecretID_def Sprintf_aws Sprintf_approle)

section \<open>The default authentication chain\<close>

text \<open>
  C3. When the IAM login succeeds, the provider that \<open>WithDefaultChainAuthProvider\<close>
  installs returns nil at once, with the client as the IAM login left it. Its events are
  the IAM login and one log message: no AppRole login is among them, and the run is the
  same whatever the library's AppRole login would do.
\<close>

theorem chain_stops_after_IAM_success:
  assumes "IAM_Login lib (getIAMLoginOptions config) client = (None, client1)"
  shows "authProvider (WithDefaultChainAuthProvider lib config opts) lg client =
           ((None, client1),
            [CallIAMLogin (getIAMLoginOptions config),
             Info lg ''Vault Client authed with AWS IAM method'']) \<and>
         CallAppRoleLogin appRoleOptions \<notin>
           set (snd (authProvider (WithDefaultChainAuthProvider lib config opts) lg client)) \<and>
         authProvider (WithDefaultChainAuthProvider (lib\<lparr>AppRole_Login := other\<rparr>) config opts)
             lg client =
           authProvider (WithDefaultChainAuthProvider lib config opts) lg client"
  using assms by (simp add: installed_chain defaultChainAuth_def)

theorem chain_stops_after_IAM_success_witness:
  "authProvider
     (WithDefaultChainAuthProvider
        (stubVault None (Some (ErrorString ''role denied'')) (Inr passwordDoc))
        (NewConfig teamSpaceEnv)
        (createDefaultOptions
           (stubVault None (Some (ErrorString ''role denied'')) (Inr passwordDoc))
           (NewConfig teamSpaceEnv)))
     zap_L 0 =
   ((None, Suc 0),
    [CallIAMLogin \<lparr> IAM_Role = [], IAM_MountPath = ''TeamSpace/aws'' \<rparr>,
     Info zap_L ''Vault Client authed with AWS IAM method'']) \<and>
   CallAppRoleLogin (getAppRoleLoginOptions (NewConfig teamSpaceEnv)) \<notin>
     set (snd (authProvider
       (WithDefaultChainAuthProvider
          (stubVault None (Some (ErrorString ''role denied'')) (Inr passwordDoc))
          (NewConfig teamSpaceEnv)
          (createDefaultOptions
             (stubVault None (Some (ErrorString ''role denied'')) (Inr passwordDoc))
             (NewConfig teamSpaceEnv)))
       zap_L 0))"
  using chain_stops_after_IAM_success [OF stub_iam_login, THEN conjunct1]
    chain_stops_after_IAM_success [OF stub_iam_login, THEN conjunct2, THEN conjunct1]
  by (simp add: teamSpace_login_options)

text \<open>
  C2. When the IAM login and then the AppRole login fail, the provider returns one error
  built by \<open>fmt.Errorf("%w; %w", iamErr, appRoleErr)\<close>: its text is the two texts
  joined by \<open>"; "\<close>, and it wraps both errors, the IAM one first.
\<close>

theorem chain_combines_both_failures:
  assumes "IAM_Login lib (getIAMLoginOptions config) client = (Some iamErr, client1)"
    and "AppRole_Login lib (getAppRoleLoginOptions config) client1 = (Some appRoleErr, client2)"
  shows "fst (authProvider (WithDefaultChainAuthProvider lib config opts) lg client) =
           (Some (WrapErrors (Error iamErr @ ''; '' @ Error appRoleErr) [iamErr, appRoleErr]),
            client2)"
  using assms by (simp add: installed_chain defaultChainAuth_def Errorf_chain)

theorem chain_combines_both_failures_witness:
  "fst (authProvider
     (WithDefaultChainAuthProvider
        (stubVault (Some (ErrorString ''no instance identity''))
           (Some (ErrorString ''role denied'')) (Inr passwordDoc))
        (NewConfig teamSpaceEnv)
        (createDefaultOptions
           (stubVault (Some (ErrorString ''no instance identity''))
              (Some (ErrorString ''role denied'')) (Inr passwordDoc))
           (NewConfig teamSpaceEnv)))
     zap_L 0) =
   (Some (WrapErrors ''no instance identity; role denied''
            [ErrorString ''no instance identity'', ErrorString ''role denied'']),
    Suc (Suc 0))"
  using chain_combines_both_failures [OF stub_iam_login stub_approle_login]
  by simp

text \<open>
  C7. When the IAM login fails and the AppRole login, on the client as the IAM login left
  it, succeeds, the provider returns nil. A construction that reaches the chain (the
  configuration is valid, the client was created, the options leave the chain as the
  provider) then returns the component, holding the client as the AppRole login left it.
\<close>

theorem chain_falls_back_to_AppRole:
  assumes "Validate pn config = None"
    and "authProvider (apply_options (createDefaultOptions lib config) opt_list) =
           authProvider (WithDefaultChainAuthProvider lib chainConfig opts)"
    and "NewClient lib ((DefaultConfig lib)
           \<lparr>Address := url (apply_options (createDefaultOptions lib config) opt_list)\<rparr>) =
           Inr client"
    and "IAM_Login lib (getIAMLoginOptions chainConfig) client = (Some iamErr, client1)"
    and "AppRole_Login lib (getAppRoleLoginOptions chainConfig) client1 = (None, client2)"
  shows "fst (authProvider (WithDefaultChainAuthProvider lib chainConfig opts) lg client) =
           (None, client2) \<and>
         fst (NewComponent lib pn config opt_list) =
           Returns \<lparr> c_config = config, c_vaultClient = client2 \<rparr>"
  using assms by (simp add: installed_chain defaultChainAuth_def NewComponent_def Let_def)

theorem chain_falls_back_to_AppRole_witness:
  "fst (NewComponent
          (stubVault (Some (ErrorString ''no instance identity'')) None (Inr passwordDoc))
          stubNames (NewConfig teamSpaceEnv) []) =
     Returns \<lparr> c_config = NewConfig teamSpaceEnv, c_vaultClient = Suc (Suc 0) \<rparr>"
proof -
  let ?lib = "stubVault (Some (ErrorString ''no instance identity'')) None (Inr passwordDoc)"
  have chain: "authProvider (apply_options (createDefaultOptions ?lib (NewConfig teamSpaceEnv)) []) =
      authProvider (WithDefaultChainAuthProvider ?lib (NewConfig teamSpaceEnv) opts)" for opts
    by (simp add: default_options_fields installed_chain)
  from chain_falls_back_to_AppRole
    [OF stub_valid chain stub_new_client stub_iam_login stub_approle_login, THEN conjunct2]
  show ?thesis .
qed

section \<open>The server URL of the client\<close>

text \<open>
  C9. A construction that returns a component has created its client by
  \<open>vault.NewClient\<close> on the library's default client configuration with the address
  replaced by the URL of the options, has run the provider of the options on that very
  client, and holds the client as the provider left it; the creation is the first event
  and the events of the provider follow it. When no option of the list is \<open>WithURL\<close>,
  the address is \<open>defaultURL\<close>, which is \<open>https://your.vault.server.url/\<close>. When the
  list has \<open>WithURL u\<close> and no \<open>WithURL\<close> after it, the address is \<open>u\<close>: the options
  apply in the order given, so of several \<open>WithURL\<close> the last one decides.
\<close>

theorem NewComponent_client_address:
  assumes "fst (NewComponent lib pn config opt_list) = Returns component"
  shows "defaultURL = ''https://your.vault.server.url/'' \<and>
         ((\<forall>f \<in> set opt_list. non_url_option lib f) \<longrightarrow>
            (\<exists>client evs.
               NewClient lib ((DefaultConfig lib)\<lparr>Address := defaultURL\<rparr>) = Inr client \<and>
               authProvider (apply_options (createDefaultOptions lib config) opt_list)
                 (log (apply_options (createDefaultOptions lib config) opt_list)) client =
                 ((None, c_vaultClient component), evs) \<and>
               snd (NewComponent lib pn config opt_list) =
                 CallNewClient ((DefaultConfig lib)\<lparr>Address := defaultURL\<rparr>) # evs \<and>
               c_config component = config)) \<and>
         (opt_list = pre @ WithURL u # post \<and> (\<forall>f \<in> set post. non_url_option lib f) \<longrightarrow>
            (\<exists>client evs.
               NewClient lib ((DefaultConfig lib)\<lparr>Address := u\<rparr>) = Inr client \<and>
               authProvider (apply_options (createDefaultOptions lib config) opt_list)
                 (log (apply_options (createDefaultOptions lib config) opt_list)) client =
                 ((None, c_vaultClient component), evs) \<and>
               snd (NewComponent lib pn config opt_list) =
                 CallNewClient ((DefaultConfig lib)\<lparr>Address := u\<rparr>) # evs \<and>
               c_config component = config))"
proof (intro conjI impI)
  show "defaultURL = ''https://your.vault.server.url/''"
    by (simp add: defaultURL_def)
next
  assume "\<forall>f \<in> set opt_list. non_url_option lib f"
  then have "url (apply_options (createDefaultOptions lib config) opt_list) = defaultURL"
    by (simp add: apply_options_keeps_url default_options_fields)
  with NewComponent_returns [OF assms]
  show "\<exists>client evs.
          NewClient lib ((DefaultConfig lib)\<lparr>Address := defaultURL\<rparr>) = Inr client \<and>
          authProvider (apply_options (createDefaultOptions lib config) opt_list)
            (log (apply_options (createDefaultOptions lib config) opt_list)) client =
            ((None, c_vaultClient component), evs) \<and>
          snd (NewComponent lib pn config opt_list) =
            CallNewClient ((DefaultConfig lib)\<lparr>Address := defaultURL\<rparr>) # evs \<and>
          c_config component = config"
    by simp
next
  assume "opt_list = pre @ WithURL u # post \<and> (\<forall>f \<in> set post. non_url_option lib f)"
  then have "url (apply_options (createDefaultOptions lib config) opt_list) = u"
    using apply_options_last_WithURL [of post lib] by auto
  with NewComponent_returns [OF assms]
  show "\<exists>client evs.
          NewClient lib ((DefaultConfig lib)\<lparr>Address := u\<rparr>) = Inr client \<and>
          authProvider (apply_options (createDefaultOptions lib config) opt_list)
            (log (apply_options (createDefaultOptions lib config) opt_list)) client =
            ((None, c_vaultClient component), evs) \<and>
          snd (NewComponent lib pn config opt_list) =
            CallNewClient ((DefaultConfig lib)\<lparr>Address := u\<rparr>) # evs \<and>
          c_config component = config"
    by simp
qed

theorem NewComponent_client_address_witness:
  "fst (NewComponent addressVault stubNames (NewConfig teamSpaceEnv)
          [WithLogger (zap_Logger ''test'')]) =
     Returns \<lparr> c_config = NewConfig teamSpaceEnv,
               c_vaultClient = ''https://your.vault.server.url/'' \<rparr> \<and>
   snd (NewComponent addressVault stubNames (NewConfig teamSpaceEnv)
          [WithLogger (zap_Logger ''test'')]) =
     [CallNewClient \<lparr> Address = ''https://your.vault.server.url/'' \<rparr>,
      CallIAMLogin \<lparr> IAM_Role = [], IAM_MountPath = ''TeamSpace/aws'' \<rparr>,
      Info (zap_Logger ''test'') ''Vault Client authed with AWS IAM method''] \<and>
   fst (NewComponent addressVault stubNames (NewConfig teamSpaceEnv)
          [WithURL ''https://vault.example:8200/'', WithLogger (zap_Logger ''test'')]) =
     Returns \<lparr> c_config = NewConfig teamSpaceEnv,
               c_vaultClient = ''https://vault.example:8200/'' \<rparr> \<and>
   snd (NewComponent addressVault stubNames (NewConfig teamSpaceEnv)
          [WithURL ''https://vault.example:8200/'', WithLogger (zap_Logger ''test'')]) =
     [CallNewClient \<lparr> Address = ''https://vault.example:8200/'' \<rparr>,
      CallIAMLogin \<lparr> IAM_Role = [], IAM_MountPath = ''TeamSpace/aws'' \<rparr>,
      Info (zap_Logger ''test'') ''Vault Client authed with AWS IAM method'']"
proof -
  let ?cfg = "NewConfig teamSpaceEnv"
  let ?l = "WithLogger (zap_Logger ''test'') :: string Option"
  let ?u = "WithURL ''https://vault.example:8200/'' :: string Option"
  have b1: "fst (NewComponent addressVault stubNames ?cfg [?l]) =
      Returns \<lparr> c_config = ?cfg, c_vaultClient = ''https://your.vault.server.url/'' \<rparr>"
    using address_construct [of "[?l]"]
    by (simp add: WithLogger_def default_options_fields defaultURL_def)
  have b2: "fst (NewComponent addressVault stubNames ?cfg [?u, ?l]) =
      Returns \<lparr> c_config = ?cfg, c_vaultClient = ''https://vault.example:8200/'' \<rparr>"
    using address_construct [of "[?u, ?l]"]
    by (simp add: WithLogger_def WithURL_def default_options_fields)
  have n1: "\<forall>f \<in> set [?l]. non_url_option addressVault f"
    by (simp add: non_url_option.logger)
  have s2: "[?u, ?l] = [] @ ?u # [?l]"
    by simp
  from NewComponent_client_address [OF b1, THEN conjunct2, THEN conjunct1, THEN mp, OF n1]
    NewComponent_client_address [OF b2, THEN conjunct2, THEN conjunct2, THEN mp,
      OF conjI [OF s2 n1]]
    b1 b2
  show ?thesis
    by (auto simp add: address_new_client address_default_config defaultURL_def WithLogger_def
        WithURL_def default_options_fields defaultChainAuth_def address_logins
        teamSpace_login_options)
qed

section \<open>Reading a secret\<close>

text \<open>
  C6. When the read succeeds and the \<open>data\<close> entry of the document is a map that holds a
  string at the key, \<open>GetSecret\<close> returns that string and a nil error; so
  \<open>GetSecret("password")\<close> on \<open>{"data": {"password": "s3cr3t"}}\<close> returns \<open>s3cr3t\<close>.
\<close>

theorem GetSecret_returns_string_value:
  assumes "KV2_Get lib \<lparr> KV2_MountPath = SecretMountPath (c_config c),
                          KV2_SecretPath = SecretPath (c_config c) \<rparr> (c_vaultClient c) =
             Inr secretResp"
    and "Data secretResp ''data'' = Some (IMap secretMap)"
    and "secretMap key = Some (IString v)"
  shows "GetSecret lib c key = Returns (v, None)"
  using assms by (simp add: GetSecret_def index_present)

theorem GetSecret_returns_string_value_witness:
  "GetSecret (stubVault None None (Inr passwordDoc)) stubComponent ''password'' =
     Returns (''s3cr3t'', None)"
proof -
  have m: "[''password'' \<mapsto> IString ''s3cr3t''] ''password'' = Some (IString ''s3cr3t'')"
    by simp
  show ?thesis
    by (rule GetSecret_returns_string_value [OF stub_read passwordDoc_data m])
qed

text \<open>
  C8. When the read fails, \<open>GetSecret\<close> returns the empty string and the error of the
  read, unchanged. And whenever \<open>GetSecret\<close> returns a non-nil error, the string with it
  is empty and the error is the one of the read.
\<close>

theorem GetSecret_read_error:
  "(KV2_Get lib \<lparr> KV2_MountPath = SecretMountPath (c_config c),
                   KV2_SecretPath = SecretPath (c_config c) \<rparr> (c_vaultClient c) = Inl err \<longrightarrow>
      GetSecret lib c key = Returns ([], Some err)) \<and>
   (GetSecret lib c key = Returns (s, Some e) \<longrightarrow>
      s = [] \<and>
      KV2_Get lib \<lparr> KV2_MountPath = SecretMountPath (c_config c),
                    KV2_SecretPath = SecretPath (c_config c) \<rparr> (c_vaultClient c) = Inl e)"
  by (auto simp add: GetSecret_def emptyStr_def split: sum.splits outcome.splits)

theorem GetSecret_read_error_witness:
  "GetSecret (stubVault None None (Inl (ErrorString ''connection refused''))) stubComponent
     ''password'' = Returns ([], Some (ErrorString ''connection refused'')) \<and>
   KV2_Get (stubVault None None (Inl (ErrorString ''connection refused'')))
     \<lparr> KV2_MountPath = SecretMountPath (c_config stubComponent),
       KV2_SecretPath = SecretPath (c_config stubComponent) \<rparr> (c_vaultClient stubComponent) =
     Inl (ErrorString ''connection refused'')"
proof -
  let ?lib = "stubVault None None (Inl (ErrorString ''connection refused''))"
  note both = GetSecret_read_error
    [of ?lib stubComponent "ErrorString ''connection refused''" "''password''" "[]"
        "ErrorString ''connection refused''"]
  have returned: "GetSecret ?lib stubComponent ''password'' =
      Returns ([], Some (ErrorString ''connection refused''))"
    by (rule both [THEN conjunct1, THEN mp, OF stub_read])
  from both [THEN conjunct2, THEN mp, OF returned] returned
  show ?thesis by simp
qed

text \<open>
  C1, as the code has it. When the read succeeds and the \<open>data\<close> entry of the document
  is a map that does not hold the key, \<open>GetSecret\<close> returns nothing: the unchecked
  assertion \<open>secretMap[key].(string)\<close> panics on the nil value of the absent entry.
\<close>

theorem GetSecret_missing_key_panics:
  assumes "KV2_Get lib \<lparr> KV2_MountPath = SecretMountPath (c_config c),
                          KV2_SecretPath = SecretPath (c_config c) \<rparr> (c_vaultClient c) =
             Inr secretResp"
    and "Data secretResp ''data'' = Some (IMap secretMap)"
    and "secretMap key = None"
  shows "GetSecret lib c key = Panics (TypeAssertionError TNil TString)"
  using assms by (simp add: GetSecret_def index_present index_absent)

theorem GetSecret_missing_key_panics_witness:
  "GetSecret (stubVault None None (Inr passwordDoc)) stubComponent ''missing'' =
     Panics (TypeAssertionError TNil TString)"
proof -
  have m: "[''password'' \<mapsto> IString ''s3cr3t''] ''missing'' = None"
    by simp
  show ?thesis
    by (rule GetSecret_missing_key_panics [OF stub_read passwordDoc_data m])
qed

text \<open>
  C1, as the specification has it, fails: on the document
  \<open>{"data": {"password": "s3cr3t"}}\<close>, which has no key \<open>missing\<close>,
  \<open>GetSecret("missing")\<close> does not return an error.
\<close>

theorem GetSecret_missing_key_counterexample:
  "index [''password'' \<mapsto> IString ''s3cr3t''] ''missing'' = INil \<and>
   \<not> returns_error
       (GetSecret (stubVault None None (Inr passwordDoc)) stubComponent ''missing'')"
  by (simp add: GetSecret_def stubVault_def passwordDoc_def index_def)

end
